theory Spec2Isabelle
  imports Complex_Main "HOL-Library.Sublist"
begin

section \<open>Strings and characters\<close>

text \<open>
  A JavaScript string is a sequence of code units. The model uses \<^typ>\<open>string\<close>, a list of
  \<^typ>\<open>char\<close>, so it covers the code units below 256 (ASCII and Latin-1); every character of
  the four preset alphabets is ASCII. \<open>charCode\<close> is the numeric value of a code unit.
\<close>

definition charCode :: "char \<Rightarrow> nat" where
  "charCode c = of_char c"

text \<open>
  \<open>String.prototype.toLowerCase\<close> on code units below 256: the ASCII capitals and the
  Latin-1 capitals (\<open>0xC0\<close> to \<open>0xDE\<close> without the multiplication sign \<open>0xD7\<close>) move up by 32,
  everything else is unchanged.
\<close>

definition lowerChar :: "char \<Rightarrow> char" where
  "lowerChar c =
     (let n = charCode c in
      if (65 \<le> n \<and> n \<le> 90) \<or> (192 \<le> n \<and> n \<le> 222 \<and> n \<noteq> 215)
      then char_of (n + 32) else c)"

definition toLowerCase :: "string \<Rightarrow> string" where
  "toLowerCase s = map lowerChar s"

text \<open>
  \<open>String.prototype.charAt\<close>: the one-character string at the index, and the empty string
  when the index is out of range (it never raises).
\<close>

definition charAt :: "string \<Rightarrow> int \<Rightarrow> string" where
  "charAt s k = (if 0 \<le> k \<and> k < int (length s) then [s ! nat k] else [])"

section \<open>Regular expressions used by the source\<close>

text \<open>
  The source only calls \<open>RegExp.prototype.test\<close> and a global \<open>replace\<close> with a character
  class. The fragment of the regular-expression language it uses is embedded directly:
  an atom matches one character, a piece is an atom or an atom repeated at least \<open>n\<close>
  times (\<open>{n,}\<close>), a sequence is a list of pieces and a regular expression is a list of
  alternative sequences (\<open>|\<close>).
\<close>

datatype atom =
    AnyChar
  | Lit char
  | InSet "(char \<times> char) list"
  | NotInSet "(char \<times> char) list"

datatype piece = One atom | AtLeast nat atom

type_synonym regex = "piece list list"

definition in_ranges :: "(char \<times> char) list \<Rightarrow> char \<Rightarrow> bool" where
  "in_ranges rs c =
     list_ex (\<lambda>(lo, hi). charCode lo \<le> charCode c \<and> charCode c \<le> charCode hi) rs"

text \<open>The dot matches every character but a line terminator.\<close>

fun atom_matches :: "atom \<Rightarrow> char \<Rightarrow> bool" where
  "atom_matches AnyChar c = (c \<noteq> CHR 0x0A \<and> c \<noteq> CHR 0x0D)"
| "atom_matches (Lit d) c = (c = d)"
| "atom_matches (InSet rs) c = in_ranges rs c"
| "atom_matches (NotInSet rs) c = (\<not> in_ranges rs c)"

text \<open>\<open>match_here ps s\<close>: the sequence \<open>ps\<close> matches a prefix of \<open>s\<close>.\<close>

fun match_here :: "piece list \<Rightarrow> string \<Rightarrow> bool" where
  "match_here [] s = True"
| "match_here (One a # ps) [] = False"
| "match_here (One a # ps) (c # cs) = (atom_matches a c \<and> match_here ps cs)"
| "match_here (AtLeast 0 a # ps) s =
     (match_here ps s \<or>
      (case s of [] \<Rightarrow> False
       | c # cs \<Rightarrow> atom_matches a c \<and> match_here (AtLeast 0 a # ps) cs))"
| "match_here (AtLeast (Suc n) a # ps) s =
     (case s of [] \<Rightarrow> False
      | c # cs \<Rightarrow> atom_matches a c \<and> match_here (AtLeast n a # ps) cs)"

text \<open>\<open>regex.test(s)\<close>: some alternative matches at some position of \<open>s\<close>.\<close>

fun regex_test :: "regex \<Rightarrow> string \<Rightarrow> bool" where
  "regex_test r [] = list_ex (\<lambda>ps. match_here ps []) r"
| "regex_test r (c # cs) = (list_ex (\<lambda>ps. match_here ps (c # cs)) r \<or> regex_test r cs)"

text \<open>The literal of a word: one piece per character.\<close>

definition word :: "string \<Rightarrow> piece list" where
  "word w = map (\<lambda>c. One (Lit c)) w"

text \<open>The six patterns of \<open>calculatePasswordStrength\<close>, in source order.\<close>

definition re_lowercase :: regex where
  \<comment> \<open>\<^verbatim>\<open>/[a-z]/\<close>\<close>
  "re_lowercase = [[One (InSet [(CHR ''a'', CHR ''z'')])]]"

definition re_uppercase :: regex where
  \<comment> \<open>\<^verbatim>\<open>/[A-Z]/\<close>\<close>
  "re_uppercase = [[One (InSet [(CHR ''A'', CHR ''Z'')])]]"

definition re_digit :: regex where
  \<comment> \<open>\<^verbatim>\<open>/[0-9]/\<close>\<close>
  "re_digit = [[One (InSet [(CHR ''0'', CHR ''9'')])]]"

definition re_special :: regex where
  \<comment> \<open>\<^verbatim>\<open>/[^A-Za-z0-9]/\<close>\<close>
  "re_special =
     [[One (NotInSet [(CHR ''A'', CHR ''Z''), (CHR ''a'', CHR ''z''), (CHR ''0'', CHR ''9'')])]]"

text \<open>
  The repetition pattern of the source is a group holding a dot, then two backslash
  characters, then \<open>1{2,}\<close>. Inside a regular expression literal two backslashes are one
  escaped backslash, so the pattern reads: any character, a literal backslash (code
  \<open>0x5C\<close>), and the character \<open>1\<close> two or more times. The group is never referred to:
  the pattern holds no back-reference.
\<close>

definition re_repetition :: regex where
  "re_repetition = [[One AnyChar, One (Lit (CHR 0x5C)), AtLeast 2 (Lit CHR ''1'')]]"

definition sequential_words :: "string list" where
  "sequential_words =
     [''abc'', ''bcd'', ''cde'', ''123'', ''234'', ''345'', ''456'', ''567'', ''678'', ''789'']"

definition re_sequential :: regex where
  \<comment> \<open>\<^verbatim>\<open>/abc|bcd|cde|123|234|345|456|567|678|789/\<close>\<close>
  "re_sequential = map word sequential_words"

section \<open>Strength scoring\<close>

datatype strength_level = very_weak | weak | moderate | strong | very_strong

text \<open>
  \<open>calculatePasswordStrength\<close> threads two variables, \<open>score\<close> and \<open>feedback\<close>, through a
  sequence of checks. The model passes them on as a pair. \<open>variety_checks\<close> is the state
  after the length and character-variety checks (source lines 139 to 160).
\<close>

definition variety_checks :: "string \<Rightarrow> int \<times> string list" where
  "variety_checks password =
     (let score = 0; feedback = [];
          (score, feedback) =
             (if length password \<ge> 8 then (score + 20, feedback)
              else (score, feedback @ [''Password should be at least 8 characters long'']));
          score = (if length password \<ge> 12 then score + 10 else score);
          score = (if length password \<ge> 16 then score + 10 else score);
          (score, feedback) =
             (if regex_test re_lowercase password then (score + 10, feedback)
              else (score, feedback @ [''Add lowercase letters'']));
          (score, feedback) =
             (if regex_test re_uppercase password then (score + 10, feedback)
              else (score, feedback @ [''Add uppercase letters'']));
          (score, feedback) =
             (if regex_test re_digit password then (score + 10, feedback)
              else (score, feedback @ [''Add numbers'']));
          (score, feedback) =
             (if regex_test re_special password then (score + 20, feedback)
              else (score, feedback @ [''Add special characters'']))
      in (score, feedback))"

text \<open>The repetition penalty (source line 163), applied to the running score.\<close>

definition repetition_penalty :: "string \<Rightarrow> int \<Rightarrow> int" where
  "repetition_penalty password score =
     (if regex_test re_repetition password then score - 10 else score)"

text \<open>The sequential-characters penalty (source lines 166 to 168).\<close>

definition sequential_penalty :: "string \<Rightarrow> int \<Rightarrow> int" where
  "sequential_penalty password score =
     (if regex_test re_sequential (toLowerCase password) then score - 5 else score)"

text \<open>The additive score before clamping: the value of \<open>score\<close> at source line 170.\<close>

definition additive_score :: "string \<Rightarrow> int" where
  "additive_score password =
     sequential_penalty password (repetition_penalty password (fst (variety_checks password)))"

definition strengthLevel :: "int \<Rightarrow> strength_level" where
  "strengthLevel score =
     (if score \<ge> 80 then very_strong
      else if score \<ge> 60 then strong
      else if score \<ge> 40 then moderate
      else if score \<ge> 20 then weak
      else very_weak)"

record StrengthResult =
  score :: int
  level :: strength_level
  feedback :: "string list"

text \<open>
  The level is computed from the additive score, the returned score is that score
  clamped (source lines 170 to 179).
\<close>

definition calculatePasswordStrength :: "string \<Rightarrow> StrengthResult" where
  "calculatePasswordStrength password =
     (let score = additive_score password
      in \<lparr> score = max 0 (min 100 score),
           level = strengthLevel score,
           feedback = snd (variety_checks password) \<rparr>)"

section \<open>Password generation\<close>

record config =
  characters :: string
  defaultLength :: int
  maxLength :: int

text \<open>
  The table of presets, an object literal in the source. It is kept as an association
  list: \<open>Object.keys\<close> lists the names in this order.
\<close>

definition PASSWORD_CONFIGS :: "(string \<times> config) list" where
  "PASSWORD_CONFIGS =
     [(''simple'',
         \<lparr> characters = ''abcdefghijklmnopqrstuvwxyz0123456789'',
           defaultLength = 8, maxLength = 50 \<rparr>),
      (''standard'',
         \<lparr> characters = ''abcdefghijklmnopqrstuvwxyzABCDEFGHIJKLMNOPQRSTUVWXYZ0123456789'',
           defaultLength = 12, maxLength = 100 \<rparr>),
      (''complex'',
         \<lparr> characters =
             ''abcdefghijklmnopqrstuvwxyzABCDEFGHIJKLMNOPQRSTUVWXYZ0123456789@#$%&*!?+='',
           defaultLength = 16, maxLength = 100 \<rparr>),
      (''secure'',
         \<lparr> characters =
             ''abcdefghijklmnopqrstuvwxyzABCDEFGHIJKLMNOPQRSTUVWXYZ0123456789@#$%&*!?+=[]{}()<>'',
           defaultLength = 20, maxLength = 100 \<rparr>)]"

text \<open>
  \<open>PASSWORD_CONFIGS[type]\<close> is a property read on a plain object: an own property gives
  the preset, a name that is no own property is looked up in \<open>Object.prototype\<close>, and only
  a name found in neither gives \<open>undefined\<close>. The properties of \<open>Object.prototype\<close> are
  functions (and, for \<open>__proto__\<close>, the prototype object itself): all truthy, none with a
  \<open>maxLength\<close> or \<open>characters\<close> property.
\<close>

definition Object_prototype_keys :: "string list" where
  "Object_prototype_keys =
     [''constructor'', ''__defineGetter__'', ''__defineSetter__'', ''hasOwnProperty'',
      ''__lookupGetter__'', ''__lookupSetter__'', ''isPrototypeOf'', ''propertyIsEnumerable'',
      ''toString'', ''valueOf'', ''__proto__'', ''toLocaleString'']"

datatype js_lookup = Own config | Inherited | Undefined

definition lookup_config :: "string \<Rightarrow> js_lookup" where
  "lookup_config type =
     (case map_of PASSWORD_CONFIGS type of
        Some c \<Rightarrow> Own c
      | None \<Rightarrow> if type \<in> set Object_prototype_keys then Inherited else Undefined)"

text \<open>Reading \<open>.maxLength\<close> and \<open>.characters\<close> of the value found; \<open>None\<close> is \<open>undefined\<close>.\<close>

fun get_maxLength :: "js_lookup \<Rightarrow> int option" where
  "get_maxLength (Own c) = Some (maxLength c)"
| "get_maxLength Inherited = None"
| "get_maxLength Undefined = None"

fun get_characters :: "js_lookup \<Rightarrow> string option" where
  "get_characters (Own c) = Some (characters c)"
| "get_characters Inherited = None"
| "get_characters Undefined = None"

text \<open>Decimal notation, for the template literal of the length message.\<close>

definition digit_char :: "nat \<Rightarrow> char" where
  "digit_char n = char_of (48 + n)"

function show_nat :: "nat \<Rightarrow> string" where
  "show_nat n = (if n < 10 then [digit_char n] else show_nat (n div 10) @ [digit_char (n mod 10)])"
  by pat_completeness auto
termination
  by (relation "measure (\<lambda>n. n)") auto

declare show_nat.simps [simp del]

definition show_int :: "int \<Rightarrow> string" where
  "show_int k = (if k < 0 then ''-'' @ show_nat (nat (- k)) else show_nat (nat k))"

fun show_number :: "int option \<Rightarrow> string" where
  "show_number None = ''undefined''"
| "show_number (Some k) = show_int k"

fun join :: "string \<Rightarrow> string list \<Rightarrow> string" where
  "join sep [] = []"
| "join sep [x] = x"
| "join sep (x # y # ys) = x @ sep @ join sep (y # ys)"

section \<open>Numbers and arguments\<close>

text \<open>
  A JavaScript number is a double: \<open>NaN\<close>, one of the two infinities, or a finite value,
  kept here as the real number it stands for (so a fraction such as 4.5 is a number like
  any other).
\<close>

datatype js_number = NaN | PosInfinity | NegInfinity | Finite real

text \<open>The relational operator \<open><\<close> on numbers: false as soon as one side is \<open>NaN\<close>.\<close>

fun js_less :: "js_number \<Rightarrow> js_number \<Rightarrow> bool" where
  "js_less NaN y = False"
| "js_less x NaN = False"
| "js_less PosInfinity y = False"
| "js_less NegInfinity NegInfinity = False"
| "js_less NegInfinity y = True"
| "js_less (Finite a) PosInfinity = True"
| "js_less (Finite a) NegInfinity = False"
| "js_less (Finite a) (Finite b) = (a < b)"

text \<open>
  \<open>length > maxLength\<close> is \<open>maxLength < length\<close>, and \<open>maxLength\<close> may be \<open>undefined\<close>, which
  converts to \<open>NaN\<close>.
\<close>

fun js_greater :: "js_number \<Rightarrow> int option \<Rightarrow> bool" where
  "js_greater x None = False"
| "js_greater x (Some m) = js_less (Finite (of_int m)) x"

text \<open>
  The product of two doubles is the exact product rounded to the nearest double, ties to
  the even significand. For a real \<open>x\<close> other than 0 the doubles around it are the
  multiples of \<open>double_ulp x\<close>: 2 to the power of the binary exponent of \<open>x\<close> (at least
  \<open>- 1022\<close>, below which the doubles are subnormal) less the 52 bits of the fraction. The
  products of this program are below 128, so the rounding never overflows.
\<close>

definition round_ties_even :: "real \<Rightarrow> int" where
  "round_ties_even y =
     (let f = \<lfloor>y\<rfloor>; d = y - of_int f
      in if d < 1 / 2 then f else if 1 / 2 < d then f + 1 else if even f then f else f + 1)"

definition double_ulp :: "real \<Rightarrow> real" where
  "double_ulp x = 2 powr of_int (max (- 1022) \<lfloor>log 2 \<bar>x\<bar>\<rfloor> - 52)"

definition round_double :: "real \<Rightarrow> real" where
  "round_double x =
     (if x = 0 then 0 else of_int (round_ties_even (x / double_ulp x)) * double_ulp x)"

definition double_times :: "real \<Rightarrow> real \<Rightarrow> real" where
  "double_times a b = round_double (a * b)"

text \<open>
  \<open>generatePassword\<close> is called with any values: the \<open>POST\<close> route passes the fields of the
  request body as they are. The function uses \<open>length\<close> only as an operand of \<open><\<close> and \<open>>\<close>,
  which convert it to a number, and \<open>type\<close> only as a property name, which converts it to
  a string (\<open>type\<close> is also copied into the answer). An argument is therefore kept as what
  its conversion gives. For a number as \<open>length\<close> and a string as \<open>type\<close> that is the
  argument itself; a string, a boolean, \<open>null\<close> or an array as \<open>length\<close> is the number it
  converts to, which is \<open>NaN\<close> for a text that is no numeral (\<open>abc\<close>, say). The conversion
  of an object that has neither a callable \<open>toString\<close> nor a callable \<open>valueOf\<close> (the body
  \<open>{"length": {"toString": 1}}\<close> holds one) raises a \<open>TypeError\<close>: that is
  \<open>Unconvertible\<close>. An argument left \<open>undefined\<close> is \<open>None\<close> and takes the default of the
  parameter list. \<open>excludeAmbiguous\<close> is used as a condition only, which no value fails
  to convert to a boolean. The \<open>GET\<close> route passes the result of \<open>parseInt\<close> (never
  \<open>NaN\<close>, which it rejects itself) and a boolean. A name that holds a code unit above 255
  is a property of neither the table nor \<open>Object.prototype\<close> and is answered like every
  other unknown name, so names are kept as lists of 8-bit characters.
\<close>

datatype 'a js_arg = Arg 'a | Unconvertible

definition with_default :: "'a \<Rightarrow> 'a option \<Rightarrow> 'a" where
  "with_default d a = (case a of None \<Rightarrow> d | Some v \<Rightarrow> v)"

text \<open>
  The exceptions the body can raise: the two \<open>new Error(...)\<close> of the validation, the
  \<open>TypeError\<close> of reading a property of \<open>undefined\<close> and the \<open>TypeError\<close> of a failed
  conversion. Each is an error object and carries its message.
\<close>

datatype js_error = Error string | TypeError string

fun message_of :: "js_error \<Rightarrow> string" where
  "message_of (Error m) = m"
| "message_of (TypeError m) = m"

definition invalid_type_message :: string where
  "invalid_type_message =
     ''Invalid password type. Available types: '' @ join '', '' (map fst PASSWORD_CONFIGS)"

definition invalid_length_message :: "int option \<Rightarrow> string" where
  "invalid_length_message bound =
     ''Password length must be between 4 and '' @ show_number bound @ '' characters''"

definition undefined_property_message :: "string \<Rightarrow> string" where
  "undefined_property_message prop =
     ''Cannot read properties of undefined (reading '' @ [CHR 0x27] @ prop @ [CHR 0x27] @ '')''"

definition conversion_message :: string where
  "conversion_message = ''Cannot convert object to primitive value''"

text \<open>
  How a piece of code ends: it returns a value, it throws, or it never ends. A \<open>try\<close>
  statement passes a returned value on and hands a thrown error to its \<open>catch\<close> clause,
  whose own end is the end of the statement.
\<close>

datatype 'a outcome = Returns 'a | Throws js_error | Diverges

definition try_catch :: "'a outcome \<Rightarrow> (js_error \<Rightarrow> 'a outcome) \<Rightarrow> 'a outcome" where
  "try_catch body handler =
     (case body of Returns v \<Rightarrow> Returns v | Throws e \<Rightarrow> handler e | Diverges \<Rightarrow> Diverges)"

text \<open>\<open>characters.replace(/[0O1Il]/g, '')\<close>: every character of the class is dropped.\<close>

definition ambiguous_class :: atom where
  "ambiguous_class =
     InSet [(CHR ''0'', CHR ''0''), (CHR ''O'', CHR ''O''), (CHR ''1'', CHR ''1''),
            (CHR ''I'', CHR ''I''), (CHR ''l'', CHR ''l'')]"

definition remove_class :: "atom \<Rightarrow> string \<Rightarrow> string" where
  "remove_class a s = filter (\<lambda>c. \<not> atom_matches a c) s"

definition working_alphabet :: "string \<Rightarrow> bool \<Rightarrow> string" where
  "working_alphabet alphabet excludeAmbiguous =
     (if excludeAmbiguous then remove_class ambiguous_class alphabet else alphabet)"

text \<open>
  The sampling loop (source lines 94 to 97); \<open>alphabet\<close> and \<open>pw\<close> are the source's
  \<open>characters\<close> and \<open>password\<close>. \<open>Math.random\<close> is the only input from outside:
  \<open>random i\<close> is the number its \<open>i\<close>-th call returns during this run, and iteration \<open>i\<close> of
  the loop makes that call. The counter is compared with \<open>length\<close> as a number, so the loop
  runs once more for a fraction (five times for 4.5), not at all for \<open>NaN\<close>, and without
  end for the positive infinity: \<open>None\<close> is a loop that does not end.
\<close>

partial_function (option) sample_loop ::
  "(nat \<Rightarrow> real) \<Rightarrow> string \<Rightarrow> js_number \<Rightarrow> nat \<Rightarrow> string \<Rightarrow> string option" where
  "sample_loop random alphabet len i pw =
     (if js_less (Finite (real i)) len
      then let charactersLength = length alphabet;
               randomIndex = \<lfloor>double_times (random i) (real charactersLength)\<rfloor>
           in sample_loop random alphabet len (Suc i) (pw @ charAt alphabet randomIndex)
      else Some pw)"

record GeneratedPassword =
  password :: string
  length' :: int
  type' :: string
  strength :: StrengthResult
  excludedAmbiguous :: bool

text \<open>
  The body of the \<open>try\<close> block (source lines 71 to 116, without the \<open>meta\<close> part of the
  answer), after the defaults: what it returns is the \<open>data\<close> object. The conversions
  happen where the source first uses the argument: \<open>type\<close> in the property read of line
  72, \<open>length\<close> in the comparison of line 79.
\<close>

definition generatePassword_try ::
  "(nat \<Rightarrow> real) \<Rightarrow> js_number js_arg \<Rightarrow> string js_arg \<Rightarrow> bool \<Rightarrow> GeneratedPassword outcome"
  where
  "generatePassword_try random len type excludeAmbiguous =
     (case type of
        Unconvertible \<Rightarrow> Throws (TypeError conversion_message)
      | Arg key \<Rightarrow>
         (case lookup_config key of
            Undefined \<Rightarrow> Throws (Error invalid_type_message)
          | found \<Rightarrow>
             let bound = get_maxLength found in
             (case len of
                Unconvertible \<Rightarrow> Throws (TypeError conversion_message)
              | Arg n \<Rightarrow>
                 if js_less n (Finite 4) \<or> js_greater n bound
                 then Throws (Error (invalid_length_message bound))
                 else
                   (case get_characters found of
                      None \<Rightarrow>
                        Throws (TypeError (undefined_property_message
                                 (if excludeAmbiguous then ''replace'' else ''length'')))
                    | Some alphabet \<Rightarrow>
                        let alphabet = working_alphabet alphabet excludeAmbiguous in
                        (case sample_loop random alphabet n 0 [] of
                           None \<Rightarrow> Diverges
                         | Some pw \<Rightarrow>
                             let result = calculatePasswordStrength pw
                             in Returns \<lparr> password = pw,
                                          length' = int (length pw),
                                          type' = key,
                                          strength = result,
                                          excludedAmbiguous = excludeAmbiguous \<rparr>)))))"

record error_info =
  message :: string
  code :: string

record meta_info =
  generator :: string
  version :: string
  timestamp :: string

record response =
  success :: bool
  data :: "GeneratedPassword option"
  error :: "error_info option"
  meta :: meta_info

text \<open>
  \<open>generatePassword\<close>: the defaults of the parameter list, the \<open>try\<close> block and its
  \<open>catch\<close> clause. \<open>now\<close> stands for the value of \<open>new Date().toISOString()\<close>. The result
  says how the call ends: \<open>Throws\<close> is an exception that reaches the caller.
\<close>

definition generatePassword ::
  "(nat \<Rightarrow> real) \<Rightarrow> string \<Rightarrow> js_number js_arg option \<Rightarrow> string js_arg option \<Rightarrow> bool option
   \<Rightarrow> response outcome" where
  "generatePassword random now len type excludeAmbiguous =
     (let len = with_default (Arg (Finite 12)) len;
          type = with_default (Arg ''standard'') type;
          excludeAmbiguous = with_default False excludeAmbiguous;
          info = \<lparr> generator = ''Arch Password Generator API'',
                   version = ''1.0.0'',
                   timestamp = now \<rparr>
      in try_catch
           (case generatePassword_try random len type excludeAmbiguous of
              Returns d \<Rightarrow> Returns \<lparr> success = True, data = Some d, error = None, meta = info \<rparr>
            | Throws e \<Rightarrow> Throws e
            | Diverges \<Rightarrow> Diverges)
           (\<lambda>error.
              Returns \<lparr> success = False, data = None,
                        error = Some \<lparr> message = message_of error, code = ''GENERATION_ERROR'' \<rparr>,
                        meta = info \<rparr>))"

section \<open>Ascending runs, in the words of the specification\<close>

text \<open>
  The specification describes the sequential penalty by a property of the password and
  not by a pattern: the lower-cased password holds, as a substring, a run of three
  characters each one above the one before. \<open>has_ascending_run starts\<close> is that property
  for the runs that begin with a character of \<open>starts\<close>. The specification's wording
  (any run among \<open>abc...z\<close> or \<open>123...9\<close>) is \<open>spec_run_starts\<close>; \<open>listed_run_starts\<close> are the
  first characters of the ten runs the source lists.
\<close>

definition ascending_run :: "char \<Rightarrow> string" where
  "ascending_run c = [c, char_of (charCode c + 1), char_of (charCode c + 2)]"

definition has_ascending_run :: "string \<Rightarrow> string \<Rightarrow> bool" where
  "has_ascending_run starts p =
     list_ex (\<lambda>c. sublist (ascending_run c) (toLowerCase p)) starts"

definition spec_run_starts :: string where
  "spec_run_starts = ''abcdefghijklmnopqrstuvwx1234567''"

definition listed_run_starts :: string where
  "listed_run_starts = ''abc1234567''"

section \<open>Facts about the patterns\<close>

lemma regex_test_single: "regex_test [[One a]] s = list_ex (atom_matches a) s"
  by (induction s) auto

lemma class_tests:
  "regex_test re_lowercase p = list_ex (\<lambda>c. 97 \<le> charCode c \<and> charCode c \<le> 122) p"
  "regex_test re_uppercase p = list_ex (\<lambda>c. 65 \<le> charCode c \<and> charCode c \<le> 90) p"
  "regex_test re_digit p = list_ex (\<lambda>c. 48 \<le> charCode c \<and> charCode c \<le> 57) p"
  "regex_test re_special p =
     list_ex (\<lambda>c. \<not> ((65 \<le> charCode c \<and> charCode c \<le> 90)
                   \<or> (97 \<le> charCode c \<and> charCode c \<le> 122)
                   \<or> (48 \<le> charCode c \<and> charCode c \<le> 57))) p"
  by (auto simp: re_lowercase_def re_uppercase_def re_digit_def re_special_def
        regex_test_single in_ranges_def charCode_def list_ex_iff)

text \<open>A word matches here exactly when it is a prefix, and somewhere exactly when it is a
  substring.\<close>

lemma match_here_word: "match_here (word w) s = prefix w s"
proof (induction w arbitrary: s)
  case Nil
  show ?case by (simp add: word_def)
next
  case (Cons a w)
  then show ?case by (cases s) (auto simp: word_def)
qed

lemma regex_test_words: "regex_test (map word ws) s = list_ex (\<lambda>w. sublist w s) ws"
proof (induction s)
  case Nil
  show ?case by (simp add: list_ex_iff match_here_word)
next
  case (Cons c cs)
  show ?case
    by (auto simp: Cons list_ex_iff match_here_word sublist_Cons_right)
qed

text \<open>What the repetition pattern matches: a character, a backslash and two \<open>1\<close>s.\<close>

lemma match_repetition:
  "match_here [One AnyChar, One (Lit (CHR 0x5C)), AtLeast 2 (Lit CHR ''1'')] s
   \<Longrightarrow> \<exists>c rest. s = c # CHR 0x5C # CHR ''1'' # CHR ''1'' # rest"
  by (auto simp: numeral_2_eq_2 split: list.splits elim!: match_here.elims)

lemma repetition_chars:
  "regex_test re_repetition s \<Longrightarrow> CHR 0x5C \<in> set s \<and> CHR ''1'' \<in> set s"
proof (induction s)
  case Nil
  then show ?case by (simp add: re_repetition_def)
next
  case (Cons c cs)
  then show ?case using match_repetition[of "c # cs"]
    by (auto simp: re_repetition_def simp del: match_here.simps)
qed

lemma repetition_implies:
  assumes "regex_test re_repetition p"
  shows "regex_test re_special p" and "regex_test re_digit p"
proof -
  from repetition_chars[OF assms] have b: "CHR 0x5C \<in> set p" and d: "CHR ''1'' \<in> set p"
    by auto
  show "regex_test re_special p" unfolding class_tests list_ex_iff
    using b by (intro bexI[of _ "CHR 0x5C"]) (simp_all add: charCode_def)
  show "regex_test re_digit p" unfolding class_tests list_ex_iff
    using d by (intro bexI[of _ "CHR ''1''"]) (simp_all add: charCode_def)
qed

lemma charCode_lowerChar:
  "charCode (lowerChar d) =
     (if (65 \<le> charCode d \<and> charCode d \<le> 90)
         \<or> (192 \<le> charCode d \<and> charCode d \<le> 222 \<and> charCode d \<noteq> 215)
      then charCode d + 32 else charCode d)"
  by (auto simp: lowerChar_def Let_def charCode_def)

lemma sequential_first:
  assumes "regex_test re_sequential s"
  shows "\<exists>c \<in> set s. (97 \<le> charCode c \<and> charCode c \<le> 99) \<or> (49 \<le> charCode c \<and> charCode c \<le> 55)"
proof -
  from assms obtain w where w: "w \<in> set sequential_words" "sublist w s"
    by (auto simp: re_sequential_def regex_test_words list_ex_iff)
  then have "set w \<subseteq> set s" by (simp add: set_mono_sublist)
  moreover from w(1)
  have "\<exists>c \<in> set w. (97 \<le> charCode c \<and> charCode c \<le> 99) \<or> (49 \<le> charCode c \<and> charCode c \<le> 55)"
    by (auto simp: sequential_words_def charCode_def)
  ultimately show ?thesis by blast
qed

text \<open>A password that draws the sequential penalty holds a letter or a digit.\<close>

lemma sequential_implies:
  assumes "regex_test re_sequential (toLowerCase p)"
  shows "regex_test re_lowercase p \<or> regex_test re_uppercase p \<or> regex_test re_digit p"
proof -
  from sequential_first[OF assms] obtain d where d: "d \<in> set p"
    and c: "(97 \<le> charCode (lowerChar d) \<and> charCode (lowerChar d) \<le> 99)
            \<or> (49 \<le> charCode (lowerChar d) \<and> charCode (lowerChar d) \<le> 55)"
    by (auto simp: toLowerCase_def)
  from c have "(97 \<le> charCode d \<and> charCode d \<le> 122) \<or> (65 \<le> charCode d \<and> charCode d \<le> 90)
      \<or> (48 \<le> charCode d \<and> charCode d \<le> 57)"
    unfolding charCode_lowerChar by (auto split: if_splits)
  with d show ?thesis unfolding class_tests list_ex_iff by blast
qed

section \<open>Facts about the score\<close>

lemma fst_variety_checks:
  "fst (variety_checks p) =
     (if length p \<ge> 8 then 20 else 0) + (if length p \<ge> 12 then 10 else 0)
     + (if length p \<ge> 16 then 10 else 0)
     + (if regex_test re_lowercase p then 10 else 0)
     + (if regex_test re_uppercase p then 10 else 0)
     + (if regex_test re_digit p then 10 else 0)
     + (if regex_test re_special p then 20 else 0)"
  by (simp add: variety_checks_def Let_def)

text \<open>
  The penalties never take the additive score below zero: the repetition pattern needs a
  backslash and a digit (30 points), the sequential pattern a letter or a digit (10
  points). The bonuses sum to 90 at most.
\<close>

lemma additive_score_bounds: "0 \<le> additive_score p \<and> additive_score p \<le> 90"
proof -
  have r: "regex_test re_repetition p \<Longrightarrow> regex_test re_special p \<and> regex_test re_digit p"
    using repetition_implies by blast
  have s: "regex_test re_sequential (toLowerCase p) \<Longrightarrow>
      regex_test re_lowercase p \<or> regex_test re_uppercase p \<or> regex_test re_digit p"
    using sequential_implies by blast
  show ?thesis
    unfolding additive_score_def sequential_penalty_def repetition_penalty_def fst_variety_checks
    using r s by (auto split: if_splits)
qed

section \<open>Claims about the strength scorer\<close>

text \<open>
  Claim C1. The specification says that a password holding a character three or more
  times in a row draws a delta of minus 10, and that \<open>aaaa1111\<close> gets plus 20 for its
  length, plus 10 for its digits, plus 10 for its lowercase letters and minus 10 for the
  repetition, which is 30. The source's pattern asks for a backslash followed by two
  \<open>1\<close>s instead of a repeated character, so it does not match \<open>aaaa1111\<close>: the three
  bonuses are applied, the penalty is not, and the score is 40.
\<close>

theorem C1_repetition_pattern_at_aaaa1111:
  "\<not> regex_test re_repetition ''aaaa1111''
   \<and> fst (variety_checks ''aaaa1111'') = 20 + 10 + 10
   \<and> additive_score ''aaaa1111'' = 40
   \<and> score (calculatePasswordStrength ''aaaa1111'') = 40"
  by code_simp

lemma listed_runs: "map ascending_run listed_run_starts = sequential_words"
  by code_simp

lemma sequential_test_runs:
  "regex_test re_sequential (toLowerCase p) = has_ascending_run listed_run_starts p"
proof -
  have "regex_test re_sequential (toLowerCase p)
        = list_ex (\<lambda>w. sublist w (toLowerCase p)) (map ascending_run listed_run_starts)"
    unfolding re_sequential_def listed_runs by (rule regex_test_words)
  also have "\<dots> = has_ascending_run listed_run_starts p"
    by (simp add: has_ascending_run_def list_ex_iff)
  finally show ?thesis .
qed

text \<open>
  Claim C3, as amended. The additive score is the score after the repetition check, less
  5 exactly when the lower-cased password holds, as a substring, an ascending run of
  three characters that begins with \<open>a\<close>, \<open>b\<close>, \<open>c\<close> or a digit from \<open>1\<close> to \<open>7\<close>: one of
  \<open>abc\<close>, \<open>bcd\<close>, \<open>cde\<close>, \<open>123\<close>, \<open>234\<close>, \<open>345\<close>, \<open>456\<close>, \<open>567\<close>, \<open>678\<close>, \<open>789\<close>. No other run
  changes the score.
\<close>

theorem C3_sequential_penalty_listed_runs:
  "additive_score p =
     repetition_penalty p (fst (variety_checks p))
     + (if has_ascending_run listed_run_starts p then - 5 else 0)"
  by (simp add: additive_score_def sequential_penalty_def sequential_test_runs)

text \<open>The amended claim C3 at \<open>xAbCx\<close>: the run is found whatever its case, and 5 is taken
  from the 20 points of the two letter classes.\<close>

theorem C3_sequential_penalty_listed_runs_witness:
  "has_ascending_run listed_run_starts ''xAbCx'' \<and> additive_score ''xAbCx'' = 20 - 5"
proof -
  have h: "has_ascending_run listed_run_starts ''xAbCx''" by code_simp
  have b: "repetition_penalty ''xAbCx'' (fst (variety_checks ''xAbCx'')) = 20" by code_simp
  show ?thesis using C3_sequential_penalty_listed_runs[of "''xAbCx''"] h b by simp
qed

text \<open>
  Claim C3 as the specification states it fails at \<open>def\<close>: it is an ascending run among
  \<open>abc...z\<close>, and the score is not lowered by 5 (it stays at the 10 points of the lowercase
  class).
\<close>

theorem C3_def_counterexample:
  "has_ascending_run spec_run_starts ''def''
   \<and> additive_score ''def'' \<noteq> repetition_penalty ''def'' (fst (variety_checks ''def'')) - 5
   \<and> score (calculatePasswordStrength ''def'') = 10"
  by code_simp

text \<open>
  Claim C4. \<open>calculatePasswordStrength\<close> is defined on every string and returns a score
  between 0 and 100; on the empty string the score is 0, the level is the lowest one and
  the feedback holds all five suggestions.
\<close>

theorem C4_score_in_range:
  "0 \<le> score (calculatePasswordStrength p) \<and> score (calculatePasswordStrength p) \<le> 100
   \<and> calculatePasswordStrength [] =
       \<lparr> score = 0, level = very_weak,
         feedback = [''Password should be at least 8 characters long'', ''Add lowercase letters'',
                     ''Add uppercase letters'', ''Add numbers'', ''Add special characters''] \<rparr>"
proof -
  have "0 \<le> score (calculatePasswordStrength p) \<and> score (calculatePasswordStrength p) \<le> 100"
    by (simp add: calculatePasswordStrength_def Let_def)
  moreover have "calculatePasswordStrength [] =
       \<lparr> score = 0, level = very_weak,
         feedback = [''Password should be at least 8 characters long'', ''Add lowercase letters'',
                     ''Add uppercase letters'', ''Add numbers'', ''Add special characters''] \<rparr>"
    by code_simp
  ultimately show ?thesis by blast
qed

text \<open>
  Claim C9. The level returned with a score is the threshold mapping of that returned
  (clamped) score: 80 and above is \<open>very_strong\<close>, 60 and above \<open>strong\<close>, 40 and above
  \<open>moderate\<close>, 20 and above \<open>weak\<close>, anything lower \<open>very_weak\<close>. The source computes the
  level from the score before clamping; the two agree because the additive score never
  leaves the range from 0 to 90.
\<close>

theorem C9_level_of_clamped_score:
  "level (calculatePasswordStrength p) =
     (let s = score (calculatePasswordStrength p)
      in if s \<ge> 80 then very_strong
         else if s \<ge> 60 then strong
         else if s \<ge> 40 then moderate
         else if s \<ge> 20 then weak
         else very_weak)"
proof -
  have "max 0 (min 100 (additive_score p)) = additive_score p"
    using additive_score_bounds[of p] by simp
  then show ?thesis
    by (simp add: calculatePasswordStrength_def Let_def strengthLevel_def)
qed

section \<open>Facts about the generator\<close>

text \<open>The three outcomes of the property read.\<close>

lemma lookup_cases:
  "lookup_config key = Undefined \<or> lookup_config key = Inherited
   \<or> (\<exists>c. map_of PASSWORD_CONFIGS key = Some c \<and> lookup_config key = Own c)"
  by (auto simp: lookup_config_def split: option.splits)

text \<open>What holds of every entry of the table.\<close>

lemma preset_cases:
  assumes "map_of PASSWORD_CONFIGS key = Some c"
  shows "key \<in> {''simple'', ''standard'', ''complex'', ''secure''}"
    and "4 \<le> maxLength c"
    and "working_alphabet (characters c) ex \<noteq> []"
    and "lookup_config key = Own c"
proof -
  show "lookup_config key = Own c" using assms by (simp add: lookup_config_def)
  have "(key, c) \<in> set PASSWORD_CONFIGS" using assms by (rule map_of_SomeD)
  then have *: "(key, c) = PASSWORD_CONFIGS ! 0 \<or> (key, c) = PASSWORD_CONFIGS ! 1
      \<or> (key, c) = PASSWORD_CONFIGS ! 2 \<or> (key, c) = PASSWORD_CONFIGS ! 3"
    by (auto simp: PASSWORD_CONFIGS_def)
  then show "key \<in> {''simple'', ''standard'', ''complex'', ''secure''}"
    by (auto simp: PASSWORD_CONFIGS_def)
  from * show "4 \<le> maxLength c" by (auto simp: PASSWORD_CONFIGS_def)
  have "CHR ''a'' \<in> set (characters c)" using * by (auto simp: PASSWORD_CONFIGS_def)
  then have "CHR ''a'' \<in> set (working_alphabet (characters c) ex)"
    by (simp add: working_alphabet_def remove_class_def ambiguous_class_def in_ranges_def charCode_def)
  then show "working_alphabet (characters c) ex \<noteq> []" by auto
qed

lemma ambiguous_removed:
  "set (working_alphabet cs True) \<inter> set ''0O1Il'' = {}"
  by (auto simp: working_alphabet_def remove_class_def ambiguous_class_def in_ranges_def charCode_def)

lemma set_charAt: "set (charAt s k) \<subseteq> set s"
proof (cases "0 \<le> k \<and> k < int (length s)")
  case True
  then have "nat k < length s" by linarith
  then show ?thesis using True by (simp add: charAt_def)
next
  case False
  then have "charAt s k = []" unfolding charAt_def by (simp only: if_False)
  then show ?thesis by simp
qed

text \<open>Rounding leaves 0 and every double in the range of the normal numbers with
  exponent up to 52 as it is.\<close>

lemma round_double_zero: "round_double 0 = 0"
  by (simp add: round_double_def)

lemma round_double_exact:
  assumes "2 ^ n \<le> x" "x < 2 ^ Suc n" "n \<le> 52" "x * 2 ^ (52 - n) \<in> \<int>"
  shows "round_double x = x"
proof -
  have pos: "0 < x" using assms(1) zero_less_power[of "2::real" n] by linarith
  have "\<lfloor>log 2 x\<rfloor> = int n"
    using assms(1,2) pos by (simp add: floor_log_eq_powr_iff powr_realpow powr_add)
  then have u: "double_ulp x = 2 powr (real n - 52)"
    using pos by (simp add: double_ulp_def)
  have "2 powr (real n - 52) * 2 ^ (52 - n) = (1::real)"
    using assms(3) by (simp add: powr_diff powr_realpow power_diff)
  then have v: "x / double_ulp x = x * 2 ^ (52 - n)"
    unfolding u by (simp add: field_simps)
  from assms(4) obtain k :: int where k: "x * 2 ^ (52 - n) = of_int k"
    by (auto elim: Ints_cases)
  have "round_ties_even (of_int k) = k" by (simp add: round_ties_even_def)
  then have "round_double x = of_int k * double_ulp x"
    using pos by (simp add: round_double_def v k)
  also have "\<dots> = x" using v k u by (simp add: field_simps)
  finally show ?thesis .
qed

text \<open>The loop only appends characters of the alphabet.\<close>

lemma sample_loop_set:
  assumes "sample_loop random alphabet len i pw = Some r"
  shows "set r \<subseteq> set pw \<union> set alphabet"
proof (rule sample_loop.raw_induct
    [where P = "\<lambda>(random :: nat \<Rightarrow> real) alphabet (len :: js_number) (i :: nat) pw r.
                  set r \<subseteq> set pw \<union> set alphabet", OF _ assms], goal_cases)
  case (1 sl random alphabet len i pw r)
  show ?case
  proof (cases "js_less (Finite (real i)) len")
    case True
    define k where "k = \<lfloor>double_times (random i) (real (length alphabet))\<rfloor>"
    have step: "sl random alphabet len (Suc i) (pw @ charAt alphabet k) = Some r"
      using 1(2) True by (simp add: Let_def k_def)
    have "set r \<subseteq> set (pw @ charAt alphabet k) \<union> set alphabet"
      by (rule 1(1)) (rule step)
    then show ?thesis using set_charAt[of alphabet k] by auto
  next
    case False
    with 1(2) show ?thesis by simp
  qed
qed

text \<open>The loop ends for \<open>NaN\<close> and for every finite length.\<close>

lemma sample_loop_NaN: "sample_loop random alphabet NaN i pw = Some pw"
  by (subst sample_loop.simps) simp

lemma sample_loop_returns:
  "\<exists>r. sample_loop random alphabet (Finite x) i pw = Some r"
proof (induction "nat \<lceil>x\<rceil> - i" arbitrary: i pw)
  case 0
  then have "\<not> real i < x" by linarith
  then show ?case by (subst sample_loop.simps) simp
next
  case (Suc m)
  show ?case
  proof (cases "real i < x")
    case True
    from Suc(2) have "m = nat \<lceil>x\<rceil> - Suc i" by simp
    from Suc(1)[OF this] obtain r where
      "sample_loop random alphabet (Finite x) (Suc i)
         (pw @ charAt alphabet \<lfloor>double_times (random i) (real (length alphabet))\<rfloor>) = Some r"
      by blast
    then show ?thesis using True by (subst sample_loop.simps) (simp add: Let_def)
  next
    case False
    then show ?thesis by (subst sample_loop.simps) simp
  qed
qed

text \<open>A length that passes the check against a preset's bound is \<open>NaN\<close> or finite.\<close>

lemma passes_check:
  assumes "\<not> js_greater n (Some m)"
  shows "n = NaN \<or> n = NegInfinity \<or> (\<exists>x. n = Finite x)"
  using assms by (cases n) simp_all

lemma sample_loop_after_check:
  assumes "\<not> js_greater n (Some m)"
  shows "\<exists>r. sample_loop random alphabet n i pw = Some r"
proof -
  consider "n = NaN" | "n = NegInfinity" | x where "n = Finite x"
    using passes_check[OF assms] by blast
  then show ?thesis
  proof cases
    case 1 then show ?thesis by (simp add: sample_loop_NaN)
  next
    case 2 then show ?thesis by (subst sample_loop.simps) simp
  next
    case 3 then show ?thesis by (simp add: sample_loop_returns)
  qed
qed

text \<open>The loop adds one character for each counter value below the length, as long as
  the index it draws is in range: a finite length \<open>x\<close> gives \<open>\<lceil>x\<rceil>\<close> characters.\<close>

lemma sample_loop_count:
  assumes "\<forall>j. length (charAt alphabet \<lfloor>double_times (random j) (real (length alphabet))\<rfloor>) = 1"
  shows "\<exists>r. sample_loop random alphabet (Finite x) i pw = Some r
           \<and> int (length r) = int (length pw) + max 0 (\<lceil>x\<rceil> - int i)"
proof (induction "nat \<lceil>x\<rceil> - i" arbitrary: i pw)
  case 0
  then have "\<not> real i < x" by linarith
  moreover from 0 have "\<lceil>x\<rceil> - int i \<le> 0" by linarith
  ultimately show ?case by (subst sample_loop.simps) simp
next
  case (Suc m)
  then have lt: "real i < x" by linarith
  define k where "k = \<lfloor>double_times (random i) (real (length alphabet))\<rfloor>"
  from Suc(2) have "m = nat \<lceil>x\<rceil> - Suc i" by simp
  from Suc(1)[OF this, of "pw @ charAt alphabet k"] obtain r where
    r: "sample_loop random alphabet (Finite x) (Suc i) (pw @ charAt alphabet k) = Some r"
    and len: "int (length r) = int (length (pw @ charAt alphabet k)) + max 0 (\<lceil>x\<rceil> - int (Suc i))"
    by blast
  have one: "length (charAt alphabet k) = 1" using assms by (simp add: k_def)
  have "sample_loop random alphabet (Finite x) i pw = Some r"
    using lt r by (subst sample_loop.simps) (simp add: Let_def k_def)
  moreover have "int (length r) = int (length pw) + max 0 (\<lceil>x\<rceil> - int i)"
    using len one Suc(2) by simp
  ultimately show ?case by blast
qed

text \<open>The body of the \<open>try\<close> block, by outcome of the property read.\<close>

lemma try_own:
  assumes "map_of PASSWORD_CONFIGS key = Some c"
  shows "generatePassword_try random (Arg n) (Arg key) ex =
     (if js_less n (Finite 4) \<or> js_greater n (Some (maxLength c))
      then Throws (Error (invalid_length_message (Some (maxLength c))))
      else case sample_loop random (working_alphabet (characters c) ex) n 0 [] of
             None \<Rightarrow> Diverges
           | Some pw \<Rightarrow>
               Returns \<lparr> password = pw, length' = int (length pw), type' = key,
                         strength = calculatePasswordStrength pw, excludedAmbiguous = ex \<rparr>)"
  using preset_cases(4)[OF assms]
  by (simp add: generatePassword_try_def Let_def split: option.splits)

lemma try_inherited:
  assumes "lookup_config key = Inherited"
  shows "generatePassword_try random (Arg n) (Arg key) ex =
     (if js_less n (Finite 4) then Throws (Error (invalid_length_message None))
      else Throws (TypeError (undefined_property_message (if ex then ''replace'' else ''length''))))"
  using assms by (simp add: generatePassword_try_def Let_def)

lemma try_undefined:
  assumes "lookup_config key = Undefined"
  shows "generatePassword_try random len (Arg key) ex = Throws (Error invalid_type_message)"
  using assms by (simp add: generatePassword_try_def)

text \<open>The body of the \<open>try\<close> block never runs without end.\<close>

lemma try_ends: "generatePassword_try random len type ex \<noteq> Diverges"
proof (cases type)
  case Unconvertible
  then show ?thesis by (simp add: generatePassword_try_def)
next
  case (Arg key)
  consider "lookup_config key = Undefined" | "lookup_config key = Inherited"
    | c where "map_of PASSWORD_CONFIGS key = Some c"
    using lookup_cases[of key] by blast
  then show ?thesis
  proof cases
    case 1 then show ?thesis using Arg by (simp add: try_undefined)
  next
    case 2
    then show ?thesis using Arg
      by (cases len) (simp_all add: try_inherited, simp add: generatePassword_try_def)
  next
    case (3 c)
    show ?thesis
    proof (cases len)
      case Unconvertible
      then show ?thesis using Arg preset_cases(4)[OF 3]
        by (simp add: generatePassword_try_def)
    next
      case (Arg n)
      show ?thesis
      proof (cases "js_less n (Finite 4) \<or> js_greater n (Some (maxLength c))")
        case True
        then show ?thesis using Arg \<open>type = Arg key\<close> by (simp add: try_own[OF 3])
      next
        case False
        then obtain r where
          "sample_loop random (working_alphabet (characters c) ex) n 0 [] = Some r"
          using sample_loop_after_check[of n "maxLength c"] by blast
        then show ?thesis using False Arg \<open>type = Arg key\<close> by (simp add: try_own[OF 3])
      qed
    qed
  qed
qed

text \<open>What the call returns follows the end of the body.\<close>

lemma generatePassword_cases:
  "generatePassword random now len type ex =
     (case generatePassword_try random (with_default (Arg (Finite 12)) len)
             (with_default (Arg ''standard'') type) (with_default False ex) of
        Returns d \<Rightarrow>
          Returns \<lparr> success = True, data = Some d, error = None,
                    meta = \<lparr> generator = ''Arch Password Generator API'', version = ''1.0.0'',
                             timestamp = now \<rparr> \<rparr>
      | Throws e \<Rightarrow>
          Returns \<lparr> success = False, data = None,
                    error = Some \<lparr> message = message_of e, code = ''GENERATION_ERROR'' \<rparr>,
                    meta = \<lparr> generator = ''Arch Password Generator API'', version = ''1.0.0'',
                             timestamp = now \<rparr> \<rparr>
      | Diverges \<Rightarrow> Diverges)"
  by (simp add: generatePassword_def try_catch_def Let_def split: outcome.splits)

text \<open>A success comes from a body that returned, for a preset, what the loop gave.\<close>

lemma returns_data:
  assumes "generatePassword random now len type ex = Returns r" and "data r = Some d"
  shows "generatePassword_try random (with_default (Arg (Finite 12)) len)
             (with_default (Arg ''standard'') type) (with_default False ex) = Returns d"
proof (cases "generatePassword_try random (with_default (Arg (Finite 12)) len)
             (with_default (Arg ''standard'') type) (with_default False ex)")
  case (Returns d')
  with assms show ?thesis by (auto simp: generatePassword_cases)
next
  case (Throws e)
  with assms show ?thesis by (auto simp: generatePassword_cases)
next
  case Diverges
  with assms show ?thesis by (simp add: generatePassword_cases)
qed

lemma try_returns:
  assumes "generatePassword_try random len type ex = Returns d"
  shows "\<exists>n c. len = Arg n \<and> type = Arg (type' d) \<and> excludedAmbiguous d = ex
           \<and> map_of PASSWORD_CONFIGS (type' d) = Some c
           \<and> sample_loop random (working_alphabet (characters c) ex) n 0 [] = Some (password d)"
proof (cases type)
  case Unconvertible
  with assms show ?thesis by (simp add: generatePassword_try_def)
next
  case (Arg key)
  note key = this
  consider "lookup_config key = Undefined" | "lookup_config key = Inherited"
    | c where "map_of PASSWORD_CONFIGS key = Some c"
    using lookup_cases[of key] by blast
  then show ?thesis
  proof cases
    case 1
    with assms key show ?thesis by (simp add: try_undefined)
  next
    case 2
    with assms key show ?thesis
      by (cases len) (simp_all add: try_inherited generatePassword_try_def split: if_splits)
  next
    case (3 c)
    show ?thesis
    proof (cases len)
      case Unconvertible
      with assms key preset_cases(4)[OF 3] show ?thesis
        by (simp add: generatePassword_try_def)
    next
      case (Arg n)
      with assms key have
        "(case sample_loop random (working_alphabet (characters c) ex) n 0 [] of
            None \<Rightarrow> Diverges
          | Some pw \<Rightarrow>
              Returns \<lparr> password = pw, length' = int (length pw), type' = key,
                        strength = calculatePasswordStrength pw, excludedAmbiguous = ex \<rparr>)
         = Returns d"
        by (simp add: try_own[OF 3] split: if_splits)
      then obtain pw where pw: "sample_loop random (working_alphabet (characters c) ex) n 0 [] = Some pw"
        and d: "d = \<lparr> password = pw, length' = int (length pw), type' = key,
                        strength = calculatePasswordStrength pw, excludedAmbiguous = ex \<rparr>"
        by (auto split: option.splits)
      from d have "password d = pw" "type' d = key" "excludedAmbiguous d = ex" by simp_all
      with pw 3 Arg key show ?thesis by auto
    qed
  qed
qed

text \<open>For a number other than \<open>NaN\<close> the check of line 79 does what the message says.\<close>

lemma length_check_numbers:
  assumes "map_of PASSWORD_CONFIGS key = Some c" and "n \<noteq> NaN"
  shows "\<exists>r. generatePassword random now (Some (Arg n)) (Some (Arg key)) ex = Returns r
           \<and> success r = (\<not> js_less n (Finite 4) \<and> \<not> js_less (Finite (of_int (maxLength c))) n)
           \<and> error r =
               (if js_less n (Finite 4) \<or> js_less (Finite (of_int (maxLength c))) n
                then Some \<lparr> message = invalid_length_message (Some (maxLength c)),
                            code = ''GENERATION_ERROR'' \<rparr>
                else None)"
proof (cases "js_less n (Finite 4) \<or> js_greater n (Some (maxLength c))")
  case True
  then show ?thesis
    by (auto simp: generatePassword_cases with_default_def try_own[OF assms(1)])
next
  case False
  then obtain pw where
    "sample_loop random (working_alphabet (characters c) (with_default False ex)) n 0 [] = Some pw"
    using sample_loop_after_check[of n "maxLength c"] by blast
  with False show ?thesis
    by (auto simp: generatePassword_cases with_default_def try_own[OF assms(1)])
qed

section \<open>Claims about the generator\<close>

text \<open>
  Claim C5. The specification says that for a preset and a length between 4 and the
  preset's \<open>maxLength\<close> the password returned has exactly the requested length. The
  source compares the length as a number and never asks for an integer: the call
  \<open>generatePassword(4.5, "simple", false)\<close>, which the \<open>POST\<close> route makes for the body
  \<open>{"length": 4.5, "type": "simple"}\<close>, passes the check of line 79, the loop of line 94
  runs for the counter values 0 to 4, and the answer is a success with a password of
  five characters and the \<open>length\<close> field 5 (here with every draw of \<open>Math.random\<close> equal
  to 0, so that each character is \<open>a\<close>). The \<open>GET\<close> route cannot pass a fraction: it
  calls \<open>parseInt\<close> first.
\<close>

theorem C5_fractional_length_at_simple:
  "generatePassword (\<lambda>i. 0) now (Some (Arg (Finite (9 / 2)))) (Some (Arg ''simple'')) (Some False)
   = Returns \<lparr> success = True,
               data = Some \<lparr> password = ''aaaaa'', length' = 5, type' = ''simple'',
                             strength = calculatePasswordStrength ''aaaaa'',
                             excludedAmbiguous = False \<rparr>,
               error = None,
               meta = \<lparr> generator = ''Arch Password Generator API'', version = ''1.0.0'',
                        timestamp = now \<rparr> \<rparr>"
proof -
  have m: "map_of PASSWORD_CONFIGS ''simple'' =
      Some \<lparr> characters = ''abcdefghijklmnopqrstuvwxyz0123456789'', defaultLength = 8, maxLength = 50 \<rparr>"
    by (simp add: PASSWORD_CONFIGS_def)
  have l: "sample_loop (\<lambda>i. 0) ''abcdefghijklmnopqrstuvwxyz0123456789'' (Finite (9 / 2)) 0 []
           = Some ''aaaaa''"
    by (simp add: sample_loop.simps double_times_def round_double_def charAt_def)
  show ?thesis
    by (simp add: generatePassword_cases with_default_def try_own[OF m] working_alphabet_def l)
qed

text \<open>
  Claim C6. Whenever \<open>generatePassword\<close> succeeds, the type names a preset and every
  character of the password belongs to the working alphabet: the preset's characters,
  without the ambiguous ones when \<open>excludeAmbiguous\<close> is set. With \<open>excludeAmbiguous\<close> set
  the password holds none of \<open>0\<close>, \<open>O\<close>, \<open>1\<close>, \<open>I\<close>, \<open>l\<close>. This needs nothing of the random
  numbers nor of the length: an index out of range adds no character. The \<open>type\<close> and
  \<open>excludedAmbiguous\<close> fields of the data are the arguments after the defaults.
\<close>

theorem C6_output_in_alphabet:
  assumes "generatePassword random now len type ex = Returns r" and "data r = Some d"
  shows "\<exists>c. with_default (Arg ''standard'') type = Arg (type' d)
           \<and> with_default False ex = excludedAmbiguous d
           \<and> map_of PASSWORD_CONFIGS (type' d) = Some c
           \<and> set (password d) \<subseteq> set (working_alphabet (characters c) (excludedAmbiguous d))
           \<and> (excludedAmbiguous d \<longrightarrow> set (password d) \<inter> set ''0O1Il'' = {})"
proof -
  from try_returns[OF returns_data[OF assms]] obtain n c where
    ty: "with_default (Arg ''standard'') type = Arg (type' d)"
    and ex: "excludedAmbiguous d = with_default False ex"
    and c: "map_of PASSWORD_CONFIGS (type' d) = Some c"
    and loop: "sample_loop random (working_alphabet (characters c) (with_default False ex)) n 0 []
               = Some (password d)"
    by blast
  have sub: "set (password d) \<subseteq> set (working_alphabet (characters c) (excludedAmbiguous d))"
    using sample_loop_set[OF loop] by (simp add: ex)
  have amb: "excludedAmbiguous d \<longrightarrow> set (password d) \<inter> set ''0O1Il'' = {}"
  proof
    assume "excludedAmbiguous d"
    then have "set (password d) \<subseteq> set (working_alphabet (characters c) True)" using sub by simp
    moreover note ambiguous_removed[of "characters c"]
    ultimately show "set (password d) \<inter> set ''0O1Il'' = {}"
      by (simp only: disjoint_iff subset_iff) blast
  qed
  show ?thesis
  proof (intro exI[of _ c] conjI)
    show "with_default (Arg ''standard'') type = Arg (type' d)" by (rule ty)
    show "with_default False ex = excludedAmbiguous d" by (simp add: ex)
    show "map_of PASSWORD_CONFIGS (type' d) = Some c" by (rule c)
    show "set (password d) \<subseteq> set (working_alphabet (characters c) (excludedAmbiguous d))"
      by (rule sub)
    show "excludedAmbiguous d \<longrightarrow> set (password d) \<inter> set ''0O1Il'' = {}" by (rule amb)
  qed
qed

text \<open>Claim C6 at a run that returns \<open>airz\<close> from the preset \<open>simple\<close> without the
  ambiguous characters: the draws are 0, 1/4, 1/2 and 3/4, and their products with the
  33 characters of the alphabet are doubles, so the rounding leaves them as they are.\<close>

theorem C6_output_in_alphabet_witness:
  "\<exists>c. map_of PASSWORD_CONFIGS ''simple'' = Some c
       \<and> set ''airz'' \<subseteq> set (working_alphabet (characters c) True)
       \<and> set ''airz'' \<inter> set ''0O1Il'' = {}"
proof -
  define d where "d = \<lparr> password = ''airz'', length' = 4, type' = ''simple'',
               strength = calculatePasswordStrength ''airz'', excludedAmbiguous = True \<rparr>"
  define r where "r = \<lparr> success = True, data = Some d, error = None,
               meta = \<lparr> generator = ''Arch Password Generator API'', version = ''1.0.0'',
                        timestamp = ''2026-01-01T00:00:00.000Z'' \<rparr> \<rparr>"
  have m: "map_of PASSWORD_CONFIGS ''simple'' =
      Some \<lparr> characters = ''abcdefghijklmnopqrstuvwxyz0123456789'', defaultLength = 8, maxLength = 50 \<rparr>"
    by (simp add: PASSWORD_CONFIGS_def)
  have a: "working_alphabet ''abcdefghijklmnopqrstuvwxyz0123456789'' True
           = ''abcdefghijkmnopqrstuvwxyz23456789''"
    by code_simp
  have r1: "round_double (33 / 4) = 33 / 4"
    by (rule round_double_exact[where n = 3]) simp_all
  have r2: "round_double (33 / 2) = 33 / 2"
    by (rule round_double_exact[where n = 4]) simp_all
  have r3: "round_double (99 / 4) = 99 / 4"
    by (rule round_double_exact[where n = 4]) simp_all
  have l: "sample_loop (\<lambda>i. real (i mod 4) / 4) ''abcdefghijkmnopqrstuvwxyz23456789'' (Finite 4) 0 []
           = Some ''airz''"
    by (simp add: sample_loop.simps double_times_def round_double_zero r1 r2 r3 charAt_def)
  have run: "generatePassword (\<lambda>i. real (i mod 4) / 4) ''2026-01-01T00:00:00.000Z''
               (Some (Arg (Finite 4))) (Some (Arg ''simple'')) (Some True) = Returns r"
    by (simp add: generatePassword_cases with_default_def try_own[OF m] a l r_def d_def)
  have dat: "data r = Some d" by (simp add: r_def)
  show ?thesis using C6_output_in_alphabet[OF run dat] by (simp add: d_def)
qed

text \<open>
  Claim C7. The specification says that the generation fails with the length error
  exactly when the length is outside the range from 4 to the preset's \<open>maxLength\<close>. The
  check of line 79 is two comparisons, and both are false for \<open>NaN\<close>: a length that
  converts to \<open>NaN\<close> (the body \<open>{"length": "abc", "type": "simple"}\<close> of a \<open>POST\<close> request)
  passes the check though it is not in the range, the loop does not run, and the answer
  is a success with the empty password and the \<open>length\<close> field 0, whatever
  \<open>Math.random\<close> returns. The \<open>GET\<close> route rejects \<open>NaN\<close> before the call. For every
  other number the check does what the claim says (lemma \<open>length_check_numbers\<close>).
\<close>

theorem C7_nan_length_accepted:
  "generatePassword random now (Some (Arg NaN)) (Some (Arg ''simple'')) (Some False)
   = Returns \<lparr> success = True,
               data = Some \<lparr> password = [], length' = 0, type' = ''simple'',
                             strength = calculatePasswordStrength [],
                             excludedAmbiguous = False \<rparr>,
               error = None,
               meta = \<lparr> generator = ''Arch Password Generator API'', version = ''1.0.0'',
                        timestamp = now \<rparr> \<rparr>"
proof -
  have m: "map_of PASSWORD_CONFIGS ''simple'' =
      Some \<lparr> characters = ''abcdefghijklmnopqrstuvwxyz0123456789'', defaultLength = 8, maxLength = 50 \<rparr>"
    by (simp add: PASSWORD_CONFIGS_def)
  show ?thesis
    by (simp add: generatePassword_cases with_default_def try_own[OF m] sample_loop_NaN)
qed

text \<open>
  Claim C8. The specification says that every name outside the four presets fails with
  the error that lists the valid names. The source tests \<open>!PASSWORD_CONFIGS[type]\<close>, and
  for a name such as \<open>constructor\<close> the property read finds a function of
  \<open>Object.prototype\<close>, which is truthy: the name passes the check, its \<open>maxLength\<close> and
  \<open>characters\<close> are \<open>undefined\<close>, and with length 10 the run ends in the \<open>TypeError\<close> of
  reading \<open>length\<close> of \<open>undefined\<close>. The answer carries that message, not the one that
  lists the valid names.
\<close>

theorem C8_inherited_key_not_rejected:
  "lookup_config ''constructor'' = Inherited
   \<and> generatePassword random now (Some (Arg (Finite 10))) (Some (Arg ''constructor'')) (Some False)
       = Returns \<lparr> success = False, data = None,
                   error = Some \<lparr> message = undefined_property_message ''length'',
                                   code = ''GENERATION_ERROR'' \<rparr>,
                   meta = \<lparr> generator = ''Arch Password Generator API'', version = ''1.0.0'',
                            timestamp = now \<rparr> \<rparr>
   \<and> undefined_property_message ''length'' \<noteq> invalid_type_message"
proof -
  have l: "lookup_config ''constructor'' = Inherited" by code_simp
  have n: "undefined_property_message ''length'' \<noteq> invalid_type_message" by code_simp
  have "generatePassword_try random (Arg (Finite 10)) (Arg ''constructor'') False
        = Throws (TypeError (undefined_property_message ''length''))"
    by (simp add: try_inherited[OF l])
  then have "generatePassword random now (Some (Arg (Finite 10))) (Some (Arg ''constructor'')) (Some False)
       = Returns \<lparr> success = False, data = None,
                   error = Some \<lparr> message = undefined_property_message ''length'',
                                   code = ''GENERATION_ERROR'' \<rparr>,
                   meta = \<lparr> generator = ''Arch Password Generator API'', version = ''1.0.0'',
                            timestamp = now \<rparr> \<rparr>"
    by (simp add: generatePassword_cases with_default_def)
  with l n show ?thesis by (intro conjI)
qed

text \<open>A name that is a property neither of the table nor of \<open>Object.prototype\<close> is
  rejected with the message that lists the four names.\<close>

lemma unknown_type_rejected:
  assumes "lookup_config key = Undefined"
  shows "generatePassword random now len (Some (Arg key)) ex =
     Returns \<lparr> success = False, data = None,
       error = Some \<lparr> message = invalid_type_message, code = ''GENERATION_ERROR'' \<rparr>,
       meta = \<lparr> generator = ''Arch Password Generator API'', version = ''1.0.0'',
                timestamp = now \<rparr> \<rparr>"
  by (simp add: generatePassword_cases with_default_def try_undefined[OF assms])

lemma invalid_type_message_text:
  "invalid_type_message
   = ''Invalid password type. Available types: simple, standard, complex, secure''"
  by code_simp

text \<open>
  Claim C10. Whatever the length, the type and the flag (given or left out, a value
  that converts or one whose conversion raises), the call of \<open>generatePassword\<close> ends,
  and it ends by returning an answer, not by an exception: either \<open>success\<close> is true and
  the answer carries the data and no error, or \<open>success\<close> is false and the answer carries
  no data and an error with a message and the code \<open>GENERATION_ERROR\<close>. Both carry the
  \<open>meta\<close> part. The proof goes through the body: each of its raise points (the two failed
  conversions, the two validation errors, the property read on \<open>undefined\<close>) lies inside
  the \<open>try\<close> block, the \<open>catch\<close> clause raises nothing, and the loop is only reached with
  a length that the check has bounded or with \<open>NaN\<close>, so it ends.
\<close>

theorem C10_well_formed_envelope:
  "\<exists>r. generatePassword random now len type ex = Returns r
       \<and> meta r = \<lparr> generator = ''Arch Password Generator API'', version = ''1.0.0'',
                     timestamp = now \<rparr>
       \<and> ((success r \<and> data r \<noteq> None \<and> error r = None)
            \<or> (\<not> success r \<and> data r = None
                \<and> (\<exists>m. error r = Some \<lparr> message = m, code = ''GENERATION_ERROR'' \<rparr>)))"
proof -
  define body where "body = generatePassword_try random (with_default (Arg (Finite 12)) len)
             (with_default (Arg ''standard'') type) (with_default False ex)"
  have "body \<noteq> Diverges" unfolding body_def by (rule try_ends)
  then show ?thesis
    by (cases body) (simp_all add: generatePassword_cases flip: body_def)
qed

end
